theory Spec2Isabelle
  imports Main "HOL-Library.Word" "HOL-Library.Char_ord" "HOL-Library.List_Lexorder"
begin

section \<open>Certificates and whitelist items\<close>

text \<open>
  A Go \<open>[]byte\<close> is a list of 8-bit words, a Go \<open>string\<close> a list of characters.
  Of \<open>pkix.Name\<close> and \<open>x509.Certificate\<close> (both of the Go standard library) the
  records keep the fields this program reads.  A \<open>*x509.Certificate\<close> is a
  \<open>Certificate option\<close>: \<open>None\<close> is the nil pointer.
\<close>

type_synonym byte = "8 word"

record Name =
  Country :: "string list"
  Organization :: "string list"
  CommonName :: string

record Certificate =
  Raw :: "byte list"
  Signature :: "byte list"
  Issuer :: Name
  SerialNumber :: "byte list"

text \<open>
  \<open>WhitelistItem\<close> is an interface whose one method the program calls is
  \<open>Matches(x509.Certificate) bool\<close>; an item is modelled by that method.
\<close>

type_synonym WhitelistItem = "Certificate \<Rightarrow> bool"

subsection \<open>certs/keep.go: Keep\<close>

text \<open>The inner loop of \<open>Keep\<close>: one pass over the whitelist for the certificate \<open>inc\<close>.\<close>

fun Keep_whitelisted ::
  "Certificate option \<Rightarrow> WhitelistItem list \<Rightarrow> Certificate option list \<Rightarrow> Certificate option list"
where
  "Keep_whitelisted inc [] keep = keep"
| "Keep_whitelisted inc (wh # whitelisted) keep =
     Keep_whitelisted inc whitelisted
       (case inc of
          None \<Rightarrow> keep
        | Some c \<Rightarrow> if wh c then keep @ [inc] else keep)"

text \<open>The outer loop of \<open>Keep\<close>, over the incoming certificates.\<close>

fun Keep_incoming ::
  "Certificate option list \<Rightarrow> WhitelistItem list \<Rightarrow> Certificate option list \<Rightarrow> Certificate option list"
where
  "Keep_incoming [] whitelisted keep = keep"
| "Keep_incoming (inc # incoming) whitelisted keep =
     Keep_incoming incoming whitelisted (Keep_whitelisted inc whitelisted keep)"

definition Keep :: "Certificate option list \<Rightarrow> WhitelistItem list \<Rightarrow> Certificate option list" where
  "Keep incoming whitelisted = Keep_incoming incoming whitelisted []"

text \<open>
  Two whitelist items of the kind the comment under \<open>Keep\<close> names: one that matches
  a certificate by its signature, one by the common name of its issuer.
\<close>

definition signature_item :: "byte list \<Rightarrow> WhitelistItem" where
  "signature_item sig c = (Signature c = sig)"

definition issuer_cn_item :: "string \<Rightarrow> WhitelistItem" where
  "issuer_cn_item cn c = (CommonName (Issuer c) = cn)"

definition cert_a :: Certificate where
  "cert_a = \<lparr>Raw = [48, 1], Signature = [7, 7], Issuer = \<lparr>Country = [''US''], Organization = [''Acme''], CommonName = ''Acme Root''\<rparr>, SerialNumber = [1]\<rparr>"

definition cert_b :: Certificate where
  "cert_b = \<lparr>Raw = [48, 2], Signature = [9], Issuer = \<lparr>Country = [''DE''], Organization = [''Beta''], CommonName = ''Beta Root''\<rparr>, SerialNumber = [2]\<rparr>"

section \<open>The darwin store\<close>

subsection \<open>Errors, panics and results\<close>

text \<open>
  A Go \<open>error\<close> is either made by \<open>errors.New\<close> in this program or comes from
  outside it (the operating system, a subprocess, a library).  A function that can
  also panic returns a \<open>result\<close>.
\<close>

datatype error = errors_New string | ExternalError string

datatype panic = NilPointerDereference | IndexOutOfRange

datatype 'a result = Ok 'a | Err error | Panic panic

text \<open>\<open>xs[i]\<close> on a Go slice: a panic when \<open>i\<close> is out of range.\<close>

definition index :: "'a list \<Rightarrow> nat \<Rightarrow> 'a result" where
  "index xs i = (if i < length xs then Ok (xs ! i) else Panic IndexOutOfRange)"

subsection \<open>Data of the store\<close>

text \<open>
  \<open>time.Time\<close>: seconds since the Unix epoch, nanoseconds within the second, and the
  offset east of UTC of its location.  \<open>zero_Time\<close> is \<open>time.Time{}\<close>.
\<close>

record Time =
  unix :: int
  nsec :: nat
  utc_offset :: int

definition zero_Time :: Time where
  "zero_Time = \<lparr>unix = - 62135596800, nsec = 0, utc_offset = 0\<rparr>"

definition zero_Name :: Name where
  "zero_Name = \<lparr>Country = [], Organization = [], CommonName = []\<rparr>"

record trustItem =
  sha1Fingerprint :: string
  issuerName :: Name
  modDate :: Time
  serialNumber :: "byte list"
  kSecTrustSettingsResult :: "32 word"

type_synonym trustItems = "trustItem list"

definition zero_trustItem :: trustItem where
  "zero_trustItem = \<lparr>sha1Fingerprint = [], issuerName = zero_Name, modDate = zero_Time,
     serialNumber = [], kSecTrustSettingsResult = 0\<rparr>"

text \<open>\<open>os.FileInfo\<close>: the name and the modification time of a directory entry.\<close>

record FileInfo =
  fi_Name :: string
  fi_ModTime :: int

text \<open>The \<open>plist\<close> and \<open>dict\<close> structs; the elements of their slices are never nil.\<close>

datatype dict = Dict (ChiData: "string list") (ChiDate: "string list") (ChiDict: "dict option")
  (ChiInteger: "bool list") (ChiKey: "string list")

datatype plist = Plist (plist_ChiDict: "dict option")

subsection \<open>What lies outside the sources\<close>

text \<open>
  The functions of packages that are not among the sources (\<open>tools/_x509\<close>,
  \<open>tools/pem\<close>, \<open>tools/file\<close>) and of the Go standard library are parameters:
  \<^item> \<open>GetHexSHA1Fingerprint\<close>, \<open>pem_Parse\<close>, \<open>SortFileInfos\<close> (the slice after the
    in-place sort), \<open>filepath_Join\<close>;
  \<^item> \<open>base64_EncodeToString\<close> and \<open>base64_DecodeString\<close> of \<open>base64.StdEncoding\<close>
    (the bytes \<open>DecodeString\<close> returns: its error is dropped by the caller);
  \<^item> \<open>asn1_Marshal\<close>: \<open>asn1.Marshal(name.ToRDNSequence())\<close>, its error dropped;
    \<open>asn1_Unmarshal\<close>: \<open>asn1.Unmarshal\<close> into a \<open>pkix.RDNSequence\<close> followed by
    \<open>FillFromRDNSequence\<close>, \<open>None\<close> when \<open>Unmarshal\<close> returns an error;
  \<^item> \<open>time_Format\<close> and \<open>time_ParseInLocation\<close> with the layout \<open>plistModDateFormat\<close>
    (and \<open>time.UTC\<close>), \<open>None\<close> when parsing returns an error.
\<close>

record lib =
  GetHexSHA1Fingerprint :: "Certificate \<Rightarrow> string"
  pem_Parse :: "string \<Rightarrow> error + Certificate option list"
  SortFileInfos :: "FileInfo list \<Rightarrow> FileInfo list"
  filepath_Join :: "string \<Rightarrow> string \<Rightarrow> string"
  base64_EncodeToString :: "byte list \<Rightarrow> string"
  base64_DecodeString :: "string \<Rightarrow> byte list"
  asn1_Marshal :: "Name \<Rightarrow> byte list"
  asn1_Unmarshal :: "byte list \<Rightarrow> Name option"
  time_Format :: "Time \<Rightarrow> string"
  time_ParseInLocation :: "string \<Rightarrow> Time option"

text \<open>
  The outcomes of the system calls and subprocesses of one run:
  \<^item> \<open>TempFile\<close>: \<open>ioutil.TempFile("", "trust-settings")\<close>, an error or the name of the
    file it created;
  \<^item> \<open>security_export\<close>: \<open>security trust-settings-export -d <file>\<close>, an error or the
    text it wrote to the file;
  \<^item> \<open>security_find_certificate\<close>: the output of \<open>security find-certificate -a -p\<close>;
  \<^item> \<open>security_import\<close>: \<open>sudo security trust-settings-import -d <file>\<close>;
  \<^item> \<open>user_Current\<close>: an error or the home directory of the current user;
  \<^item> \<open>now_Unix\<close>: \<open>time.Now().Unix()\<close>;
  \<^item> \<open>MkdirAll\<close>, \<open>CopyFile\<close>, \<open>WriteFile\<close>: the error they return, if any;
  \<^item> \<open>ReadDir\<close>: \<open>ioutil.ReadDir\<close> of a directory.
  The files are a map from paths to contents.
\<close>

record world =
  TempFile :: "error + string"
  security_export :: "error + string"
  security_find_certificate :: "error + string"
  security_import :: "string \<Rightarrow> error option"
  user_Current :: "error + string"
  now_Unix :: int
  MkdirAll :: "error option"
  CopyFile :: "error option"
  WriteFile :: "error option"
  ReadDir :: "string \<Rightarrow> error + FileInfo list"

type_synonym files = "string \<rightharpoonup> string"

text \<open>\<open>os.Remove\<close> of a file, its error dropped as the callers do.\<close>

definition os_Remove :: "string \<Rightarrow> files \<Rightarrow> files" where
  "os_Remove name fs = fs(name := None)"

text \<open>
  Modelled from the spec: \<open>file.Exists\<close> and \<open>file.CopyFile\<close> of \<open>tools/file\<close> are not
  among the sources.  A path exists when it is on disk; a copy that succeeds leaves the
  contents of the source under the destination, one that fails leaves the files as
  they were.
\<close>

definition file_Exists :: "files \<Rightarrow> string \<Rightarrow> bool" where
  "file_Exists fs path = (fs path \<noteq> None)"

definition file_CopyFile :: "world \<Rightarrow> string \<Rightarrow> string \<Rightarrow> files \<Rightarrow> error option \<times> files" where
  "file_CopyFile w src dst fs =
     (case CopyFile w of
        Some err \<Rightarrow> (Some err, fs)
      | None \<Rightarrow> (case fs src of None \<Rightarrow> (None, fs) | Some content \<Rightarrow> (None, fs(dst \<mapsto> content))))"

subsection \<open>trustSettingsExport, getCertManageDir, Backup\<close>

text \<open>
  \<open>trustSettingsExport\<close> returns the pair \<open>(fd, err)\<close>; the file is modelled by its
  name.  When the export tool fails the function returns \<open>nil, err\<close>, although the
  temporary file has been created.
\<close>

definition trustSettingsExport :: "world \<Rightarrow> files \<Rightarrow> (string option \<times> error option) \<times> files" where
  "trustSettingsExport w fs =
     (case TempFile w of
        Inl err \<Rightarrow> ((None, Some err), fs)
      | Inr name \<Rightarrow>
          (case security_export w of
             Inl err \<Rightarrow> ((None, Some err), fs(name \<mapsto> []))
           | Inr text \<Rightarrow> ((Some name, None), fs(name \<mapsto> text))))"

definition getCertManageDir :: "lib \<Rightarrow> world \<Rightarrow> string \<times> error option" where
  "getCertManageDir L w =
     (case user_Current w of
        Inl err \<Rightarrow> ([], Some err)
      | Inr home \<Rightarrow> (filepath_Join L home ''/Library/cert-manage'', None))"

text \<open>\<open>fmt.Sprintf("%d", n)\<close>: the decimal digits of an integer.\<close>

fun digits :: "nat \<Rightarrow> string" where
  "digits n =
     (if n < 10 then [''0123456789'' ! n]
      else digits (n div 10) @ [''0123456789'' ! (n mod 10)])"

declare digits.simps [simp del]

definition Sprintf_d :: "int \<Rightarrow> string" where
  "Sprintf_d n = (if n < 0 then CHR ''-'' # digits (nat (- n)) else digits (nat n))"

text \<open>
  \<open>Backup\<close>.  \<open>cleanup\<close> is the deferred \<open>os.Remove(fd.Name())\<close>, registered only when
  \<open>fd\<close> is not nil and run on every return after that.
\<close>

definition Backup :: "lib \<Rightarrow> world \<Rightarrow> files \<Rightarrow> unit result \<times> files" where
  "Backup L w fs =
     (case trustSettingsExport w fs of
        ((fd, err), fs1) \<Rightarrow>
          let cleanup = (case fd of None \<Rightarrow> (\<lambda>fs'. fs') | Some name \<Rightarrow> os_Remove name) in
          (case err of
             Some e \<Rightarrow> (Err e, cleanup fs1)
           | None \<Rightarrow>
               (case getCertManageDir L w of
                  (outDir, Some e) \<Rightarrow> (Err e, cleanup fs1)
                | (outDir, None) \<Rightarrow>
                    let filename = ''trust-backup-'' @ Sprintf_d (now_Unix w) @ ''.xml'';
                        out = filepath_Join L outDir filename in
                    (case MkdirAll w of
                       Some e \<Rightarrow> (Err e, cleanup fs1)
                     | None \<Rightarrow>
                         (case fd of
                            None \<Rightarrow> (Panic NilPointerDereference, fs1)
                          | Some name \<Rightarrow>
                              (case file_CopyFile w name out fs1 of
                                 (Some e, fs2) \<Rightarrow> (Err e, cleanup fs2)
                               | (None, fs2) \<Rightarrow> (Ok (), cleanup fs2)))))))"

subsection \<open>readInstalledCerts and trustItems.contains\<close>

text \<open>
  The inner loop of \<open>readInstalledCerts\<close>: the flag \<open>add\<close> for the certificate \<open>c\<close>
  against the certificates collected so far.  (\<open>reflect.DeepEqual\<close> on two byte slices
  compares their bytes.)
\<close>

fun readInstalledCerts_add :: "Certificate \<Rightarrow> Certificate list \<Rightarrow> bool" where
  "readInstalledCerts_add c [] = True"
| "readInstalledCerts_add c (r # res) =
     (if Signature c = Signature r then False else readInstalledCerts_add c res)"

text \<open>
  The outer loop, over the parsed certificates; \<open>res\<close> holds only pointers the loop
  found non-nil, and is kept as the list of their certificates.
\<close>

fun readInstalledCerts_loop :: "Certificate option list \<Rightarrow> Certificate list \<Rightarrow> Certificate list" where
  "readInstalledCerts_loop [] res = res"
| "readInstalledCerts_loop (None # cs) res = readInstalledCerts_loop cs res"
| "readInstalledCerts_loop (Some c # cs) res =
     readInstalledCerts_loop cs (if readInstalledCerts_add c res then res @ [c] else res)"

definition readInstalledCerts :: "lib \<Rightarrow> world \<Rightarrow> error + Certificate option list" where
  "readInstalledCerts L w =
     (case security_find_certificate w of
        Inl err \<Rightarrow> Inl err
      | Inr b \<Rightarrow>
          (case pem_Parse L b of
             Inl err \<Rightarrow> Inl err
           | Inr cs \<Rightarrow> Inr (map Some (readInstalledCerts_loop cs []))))"

fun contains_loop :: "string \<Rightarrow> trustItems \<Rightarrow> bool" where
  "contains_loop fp [] = False"
| "contains_loop fp (ti # t) = (if fp = sha1Fingerprint ti then True else contains_loop fp t)"

definition contains :: "lib \<Rightarrow> trustItems \<Rightarrow> Certificate option \<Rightarrow> bool" where
  "contains L t cert =
     (case cert of
        None \<Rightarrow> True
      | Some c \<Rightarrow> contains_loop (GetHexSHA1Fingerprint L c) t)"

subsection \<open>parsePlist: decoding XML into the plist struct\<close>

text \<open>
  \<open>parsePlist\<close> hands its input to \<open>xml.Decoder.Decode\<close> of the Go standard library (a
  decoder in strict mode).  The model of the decoder reads:
  \<^item> start tags \<open><name attr="value" ...>\<close>, end tags \<open></name>\<close> and empty-element tags
    \<open><name/>\<close>, with names made of ASCII letters, digits, \<open>_\<close>, \<open>-\<close> and \<open>.\<close> that start
    with a letter or \<open>_\<close>, and attribute values in single or double quotes;
  \<^item> character data, with the five predefined entities;
  \<^item> processing instructions \<open><?...?>\<close> (the XML declaration among them), comments
    \<open><!--...-->\<close> and directives \<open><!...>\<close> such as \<open><!DOCTYPE ...>\<close>, which give no token.
  It reports as syntax errors, besides what the decoder rejects, the following, which
  the decoder accepts and which are outside the model: CDATA sections, numeric character
  references, entity references inside attribute values, names with a colon or with
  letters outside ASCII.  The decoder's checks of the version and the encoding named by
  an XML declaration, and comments inside a directive, are not modelled.
\<close>

datatype Token = StartElement string | EndElement string | CharData string | SyntaxError

definition is_alnum :: "char \<Rightarrow> bool" where
  "is_alnum c =
     (c \<in> set ''abcdefghijklmnopqrstuvwxyzABCDEFGHIJKLMNOPQRSTUVWXYZ0123456789'')"

definition is_name_start :: "char \<Rightarrow> bool" where
  "is_name_start c = (c \<in> set ''abcdefghijklmnopqrstuvwxyzABCDEFGHIJKLMNOPQRSTUVWXYZ_'')"

definition is_name_char :: "char \<Rightarrow> bool" where
  "is_name_char c = (is_alnum c \<or> c \<in> set ''_-.'')"

definition is_xml_space :: "char \<Rightarrow> bool" where
  "is_xml_space c = (c \<in> set [CHR '' '', CHR 0x0D, CHR 0x0A, CHR 0x09])"

definition is_quote :: "char \<Rightarrow> bool" where
  "is_quote c = (c = CHR 0x22 \<or> c = CHR 0x27)"

text \<open>The name a text starts with, and the rest of the text.\<close>

definition split_name :: "string \<Rightarrow> (string \<times> string) option" where
  "split_name s =
     (case takeWhile is_name_char s of
        [] \<Rightarrow> None
      | c # cs \<Rightarrow> if is_name_start c then Some (c # cs, dropWhile is_name_char s) else None)"

text \<open>
  The attributes of a start tag, read from what follows the element name: \<open>None\<close> is a
  syntax error, \<open>Some True\<close> an empty-element tag (the text ends with \<open>/\<close>).  The
  attributes themselves are dropped: the structs have no attribute fields.
\<close>

datatype AttrState = BeforeName | InName | AfterName | BeforeValue | InValue char

fun scan_attrs :: "AttrState \<Rightarrow> string \<Rightarrow> bool option" where
  "scan_attrs BeforeName [] = Some False"
| "scan_attrs BeforeName (c # cs) =
     (if is_xml_space c then scan_attrs BeforeName cs
      else if c = CHR ''/'' then (if cs = [] then Some True else None)
      else if is_name_start c then scan_attrs InName cs
      else None)"
| "scan_attrs InName [] = None"
| "scan_attrs InName (c # cs) =
     (if is_name_char c then scan_attrs InName cs
      else if is_xml_space c then scan_attrs AfterName cs
      else if c = CHR ''='' then scan_attrs BeforeValue cs
      else None)"
| "scan_attrs AfterName [] = None"
| "scan_attrs AfterName (c # cs) =
     (if is_xml_space c then scan_attrs AfterName cs
      else if c = CHR ''='' then scan_attrs BeforeValue cs
      else None)"
| "scan_attrs BeforeValue [] = None"
| "scan_attrs BeforeValue (c # cs) =
     (if is_xml_space c then scan_attrs BeforeValue cs
      else if is_quote c then scan_attrs (InValue c) cs
      else None)"
| "scan_attrs (InValue q) [] = None"
| "scan_attrs (InValue q) (c # cs) =
     (if c = q then scan_attrs BeforeName cs
      else if c = CHR ''<'' \<or> c = CHR ''&'' then None
      else scan_attrs (InValue q) cs)"

text \<open>
  The tokens of the tag whose text between \<open><\<close> and \<open>>\<close> is \<open>s\<close>; an empty-element tag
  gives a start and an end token.
\<close>

definition mk_tag :: "string \<Rightarrow> Token list option" where
  "mk_tag s =
     (case s of
        [] \<Rightarrow> None
      | c # cs \<Rightarrow>
          if c = CHR ''/'' then
            (case split_name cs of
               None \<Rightarrow> None
             | Some (n, rest) \<Rightarrow> if list_all is_xml_space rest then Some [EndElement n] else None)
          else
            (case split_name s of
               None \<Rightarrow> None
             | Some (n, rest) \<Rightarrow>
                 (case scan_attrs BeforeName rest of
                    None \<Rightarrow> None
                  | Some False \<Rightarrow> Some [StartElement n]
                  | Some True \<Rightarrow> Some [StartElement n, EndElement n])))"

definition mk_chardata :: "string \<Rightarrow> Token list" where
  "mk_chardata s = (if s = [] then [] else [CharData s])"

definition entity :: "string \<Rightarrow> char option" where
  "entity s =
     (if s = ''lt'' then Some CHR ''<''
      else if s = ''gt'' then Some CHR ''>''
      else if s = ''amp'' then Some CHR ''&''
      else if s = ''apos'' then Some CHR 0x27
      else if s = ''quot'' then Some CHR 0x22
      else None)"

text \<open>
  Where the reader is: in character data; in an entity reference (with the character
  data before it); just after \<open><\<close>; in a tag; in a quoted attribute value; in a
  processing instruction (and whether the last character was \<open>?\<close>); after \<open><!\<close> and
  after \<open><!-\<close>; in a comment (with the number of \<open>-\<close> just read, up to two); in a
  directive (with the number of open \<open><\<close> inside it), and in a quoted string of one.
\<close>

datatype Mode =
    InText
  | InEntity string
  | TagOpen
  | InTag
  | InQuote char
  | InProcInst bool
  | AfterBang
  | AfterBangDash
  | InComment nat
  | InDirective nat
  | InDirectiveQuote nat char

text \<open>One character of a directive: \<open>None\<close> when it closes the directive.\<close>

definition directive_step :: "nat \<Rightarrow> char \<Rightarrow> Mode option" where
  "directive_step depth c =
     (if c = CHR ''>'' then (if depth = 0 then None else Some (InDirective (depth - 1)))
      else if c = CHR ''<'' then Some (InDirective (Suc depth))
      else if is_quote c then Some (InDirectiveQuote depth c)
      else Some (InDirective depth))"

text \<open>
  The tokens of a text; \<open>acc\<close> holds the characters of the character data, of the
  entity name, of the tag or of the processing instruction read so far.  A syntax
  error, also the end of the input inside markup, ends the tokens with \<open>SyntaxError\<close>.
  In character data a carriage return, with the line feed that follows it if there is
  one, is read as a line feed, and \<open>]]>\<close> is a syntax error.  The character after \<open><!\<close>
  of a directive is not looked at.
\<close>

fun xml_tokens :: "Mode \<Rightarrow> string \<Rightarrow> string \<Rightarrow> Token list" where
  "xml_tokens m acc [] = (if m = InText then mk_chardata acc else [SyntaxError])"
| "xml_tokens InText acc (c # cs) =
     (if c = CHR ''<'' then mk_chardata acc @ xml_tokens TagOpen [] cs
      else if c = CHR ''&'' then xml_tokens (InEntity acc) [] cs
      else if c = CHR ''>'' \<and> take 2 (rev acc) = '']]'' then [SyntaxError]
      else if c = CHR 0x0D then
        (case cs of
           [] \<Rightarrow> xml_tokens InText (acc @ [CHR 0x0A]) cs
         | c' # cs' \<Rightarrow>
             if c' = CHR 0x0A then xml_tokens InText (acc @ [CHR 0x0A]) cs'
             else xml_tokens InText (acc @ [CHR 0x0A]) cs)
      else xml_tokens InText (acc @ [c]) cs)"
| "xml_tokens (InEntity text) acc (c # cs) =
     (if c = CHR '';'' then
        (case entity acc of
           None \<Rightarrow> [SyntaxError]
         | Some e \<Rightarrow> xml_tokens InText (text @ [e]) cs)
      else xml_tokens (InEntity text) (acc @ [c]) cs)"
| "xml_tokens TagOpen acc (c # cs) =
     (if c = CHR ''?'' then xml_tokens (InProcInst False) [] cs
      else if c = CHR ''!'' then xml_tokens AfterBang [] cs
      else if c = CHR ''>'' then [SyntaxError]
      else xml_tokens InTag [c] cs)"
| "xml_tokens InTag acc (c # cs) =
     (if c = CHR ''>'' then
        (case mk_tag acc of
           None \<Rightarrow> [SyntaxError]
         | Some ts \<Rightarrow> ts @ xml_tokens InText [] cs)
      else if is_quote c then xml_tokens (InQuote c) (acc @ [c]) cs
      else xml_tokens InTag (acc @ [c]) cs)"
| "xml_tokens (InQuote q) acc (c # cs) =
     (if c = q then xml_tokens InTag (acc @ [c]) cs
      else xml_tokens (InQuote q) (acc @ [c]) cs)"
| "xml_tokens (InProcInst question) acc (c # cs) =
     (if question \<and> c = CHR ''>'' then
        (if split_name acc = None then [SyntaxError] else xml_tokens InText [] cs)
      else xml_tokens (InProcInst (c = CHR ''?'')) (acc @ [c]) cs)"
| "xml_tokens AfterBang acc (c # cs) =
     (if c = CHR ''-'' then xml_tokens AfterBangDash [] cs
      else if c = CHR ''['' then [SyntaxError]
      else xml_tokens (InDirective 0) [] cs)"
| "xml_tokens AfterBangDash acc (c # cs) =
     (if c = CHR ''-'' then xml_tokens (InComment 0) [] cs else [SyntaxError])"
| "xml_tokens (InComment dashes) acc (c # cs) =
     (if dashes = 2 then (if c = CHR ''>'' then xml_tokens InText [] cs else [SyntaxError])
      else if c = CHR ''-'' then xml_tokens (InComment (Suc dashes)) [] cs
      else xml_tokens (InComment 0) [] cs)"
| "xml_tokens (InDirective depth) acc (c # cs) =
     (case directive_step depth c of
        None \<Rightarrow> xml_tokens InText [] cs
      | Some m \<Rightarrow> xml_tokens m [] cs)"
| "xml_tokens (InDirectiveQuote depth q) acc (c # cs) =
     (if c = q then xml_tokens (InDirective depth) [] cs
      else xml_tokens (InDirectiveQuote depth q) [] cs)"

datatype xml = Element string "xml list" | Text string

text \<open>
  The first element of the token stream, as a tree.  \<open>stack\<close> holds the open elements,
  innermost first, each with the children read so far.  Character data before the
  first element is skipped; an end tag that does not close the innermost open element,
  a syntax error, and the end of the input before the first element is closed, are
  errors.  Nothing is read after the end of the first element, so what follows it is
  never an error.
\<close>

fun xml_build :: "(string \<times> xml list) list \<Rightarrow> Token list \<Rightarrow> xml option" where
  "xml_build stack [] = None"
| "xml_build stack (SyntaxError # ts) = None"
| "xml_build stack (StartElement n # ts) = xml_build ((n, []) # stack) ts"
| "xml_build [] (CharData s # ts) = xml_build [] ts"
| "xml_build ((n, ch) # stack) (CharData s # ts) = xml_build ((n, ch @ [Text s]) # stack) ts"
| "xml_build [] (EndElement n # ts) = None"
| "xml_build [(m, ch)] (EndElement n # ts) = (if m = n then Some (Element m ch) else None)"
| "xml_build ((m, ch) # (p, pch) # stack) (EndElement n # ts) =
     (if m = n then xml_build ((p, pch @ [Element m ch]) # stack) ts else None)"

text \<open>The character data directly inside an element (a field tagged \<open>,chardata\<close>).\<close>

fun xml_chardata :: "xml list \<Rightarrow> string" where
  "xml_chardata [] = []"
| "xml_chardata (Text s # xs) = s @ xml_chardata xs"
| "xml_chardata (Element n ch # xs) = xml_chardata xs"

definition is_space :: "char \<Rightarrow> bool" where
  "is_space c = (c \<in> set [CHR 0x09, CHR 0x0A, CHR 0x0B, CHR 0x0C, CHR 0x0D, CHR '' ''])"

definition TrimSpace :: "string \<Rightarrow> string" where
  "TrimSpace s = rev (dropWhile is_space (rev (dropWhile is_space s)))"

text \<open>
  A \<open>bool\<close> field filled from character data: \<open>false\<close> when there is none, otherwise
  \<open>strconv.ParseBool\<close> of the trimmed text.
\<close>

definition ParseBool :: "string \<Rightarrow> bool option" where
  "ParseBool s =
     (if s \<in> set [''1'', ''t'', ''T'', ''TRUE'', ''true'', ''True''] then Some True
      else if s \<in> set [''0'', ''f'', ''F'', ''FALSE'', ''false'', ''False''] then Some False
      else None)"

definition copy_bool :: "string \<Rightarrow> error + bool" where
  "copy_bool src =
     (if src = [] then Inr False
      else (case ParseBool (TrimSpace src) of
              None \<Rightarrow> Inl (ExternalError ''strconv.ParseBool: invalid syntax'')
            | Some b \<Rightarrow> Inr b))"

definition empty_dict :: dict where
  "empty_dict = Dict [] [] None [] []"

text \<open>
  Unmarshalling the children of an element into a \<open>dict\<close> struct, in document order:
  a child named after a slice field appends an element to the slice; a child
  \<open>dict\<close> is unmarshalled into the struct \<open>ChiDict\<close> points to, which is allocated
  only when the pointer is nil, so the contents of sibling \<open>dict\<close> elements
  accumulate in one struct; other children and character data are skipped.
\<close>

function decode_dict :: "dict \<Rightarrow> xml list \<Rightarrow> error + dict" where
  "decode_dict d [] = Inr d"
| "decode_dict d (Text s # xs) = decode_dict d xs"
| "decode_dict d (Element n ch # xs) =
     (if n = ''data'' then
        decode_dict (Dict (ChiData d @ [xml_chardata ch]) (ChiDate d) (ChiDict d) (ChiInteger d) (ChiKey d)) xs
      else if n = ''date'' then
        decode_dict (Dict (ChiData d) (ChiDate d @ [xml_chardata ch]) (ChiDict d) (ChiInteger d) (ChiKey d)) xs
      else if n = ''dict'' then
        (case decode_dict (case ChiDict d of None \<Rightarrow> empty_dict | Some d' \<Rightarrow> d') ch of
           Inl err \<Rightarrow> Inl err
         | Inr d' \<Rightarrow> decode_dict (Dict (ChiData d) (ChiDate d) (Some d') (ChiInteger d) (ChiKey d)) xs)
      else if n = ''integer'' then
        (case copy_bool (xml_chardata ch) of
           Inl err \<Rightarrow> Inl err
         | Inr b \<Rightarrow> decode_dict (Dict (ChiData d) (ChiDate d) (ChiDict d) (ChiInteger d @ [b]) (ChiKey d)) xs)
      else if n = ''key'' then
        decode_dict (Dict (ChiData d) (ChiDate d) (ChiDict d) (ChiInteger d) (ChiKey d @ [xml_chardata ch])) xs
      else decode_dict d xs)"
  by pat_completeness auto
termination
  by (relation "measure (\<lambda>(d, xs). size_list size xs)") auto

text \<open>The same for the \<open>plist\<close> struct, whose one field is the pointer \<open>ChiDict\<close>.\<close>

fun decode_plist :: "plist \<Rightarrow> xml list \<Rightarrow> error + plist" where
  "decode_plist p [] = Inr p"
| "decode_plist p (Text s # xs) = decode_plist p xs"
| "decode_plist p (Element n ch # xs) =
     (if n = ''dict'' then
        (case decode_dict (case plist_ChiDict p of None \<Rightarrow> empty_dict | Some d \<Rightarrow> d) ch of
           Inl err \<Rightarrow> Inl err
         | Inr d \<Rightarrow> decode_plist (Plist (Some d)) xs)
      else decode_plist p xs)"

text \<open>
  \<open>parsePlist\<close>: the first element of the input, whatever its name (the struct has no
  \<open>XMLName\<close> field), is unmarshalled into a \<open>plist\<close>.  Of a document with a syntax error
  inside the first element and a field that cannot be converted, the decoder reports
  the error it meets first; here the syntax error is the one reported.
\<close>

definition parsePlist :: "string \<Rightarrow> error + plist" where
  "parsePlist inp =
     (case xml_build [] (xml_tokens InText [] inp) of
        None \<Rightarrow> Inl (ExternalError ''XML syntax error'')
      | Some (Text s) \<Rightarrow> Inl (ExternalError ''XML syntax error'')
      | Some (Element n ch) \<Rightarrow> decode_plist (Plist None) ch)"

subsection \<open>plist.convertToTrustItems\<close>

text \<open>\<open>strings.ToLower\<close> and \<open>strings.ToUpper\<close>, on the ASCII letters.\<close>

definition to_lower :: "char \<Rightarrow> char" where
  "to_lower c =
     (case map_of (zip ''ABCDEFGHIJKLMNOPQRSTUVWXYZ'' ''abcdefghijklmnopqrstuvwxyz'') c of
        None \<Rightarrow> c
      | Some l \<Rightarrow> l)"

definition to_upper :: "char \<Rightarrow> char" where
  "to_upper c =
     (case map_of (zip ''abcdefghijklmnopqrstuvwxyz'' ''ABCDEFGHIJKLMNOPQRSTUVWXYZ'') c of
        None \<Rightarrow> c
      | Some u \<Rightarrow> u)"

definition ToLower :: "string \<Rightarrow> string" where
  "ToLower s = map to_lower s"

definition ToUpper :: "string \<Rightarrow> string" where
  "ToUpper s = map to_upper s"

text \<open>
  \<open>r.ReplaceAllString(s, "")\<close> for the regular expression \<open>[^a-zA-Z0-9\+\/=]*\<close>
  deletes every character outside the class; \<open>r2.Replace\<close> deletes tabs, newlines,
  spaces and carriage returns.
\<close>

definition in_base64_class :: "char \<Rightarrow> bool" where
  "in_base64_class c = (is_alnum c \<or> c = CHR ''+'' \<or> c = CHR ''/'' \<or> c = CHR ''='')"

definition r_ReplaceAllString :: "string \<Rightarrow> string" where
  "r_ReplaceAllString s = filter in_base64_class s"

definition r2_Replace :: "string \<Rightarrow> string" where
  "r2_Replace s = filter (\<lambda>c. c \<notin> set [CHR 0x09, CHR 0x0A, CHR '' '', CHR 0x0D]) s"

text \<open>
  The body of the loop for the index \<open>i\<close>: \<open>d2\<close> is \<open>p.ChiDict.ChiDict\<close> and \<open>d3\<close> is
  \<open>p.ChiDict.ChiDict.ChiDict\<close>.  Each slice access can panic.
\<close>

definition convert_item :: "lib \<Rightarrow> dict \<Rightarrow> dict \<Rightarrow> nat \<Rightarrow> trustItem result" where
  "convert_item L d2 d3 i =
     (case index (ChiKey d2) (i div 2) of
        Panic p \<Rightarrow> Panic p | Err e \<Rightarrow> Err e
      | Ok key \<Rightarrow>
     (case index (ChiData d3) i of
        Panic p \<Rightarrow> Panic p | Err e \<Rightarrow> Err e
      | Ok data1 \<Rightarrow>
     (case index (ChiData d3) (i + 1) of
        Panic p \<Rightarrow> Panic p | Err e \<Rightarrow> Err e
      | Ok data2 \<Rightarrow>
          let s1 = r2_Replace (r_ReplaceAllString data1);
              s2 = r2_Replace (r_ReplaceAllString data2);
              bs1 = base64_DecodeString L s1;
              bs2 = base64_DecodeString L s2;
              issuer = (case asn1_Unmarshal L bs1 of None \<Rightarrow> zero_Name | Some name \<Rightarrow> name)
          in
     (case index (ChiDate d3) (i div 2) of
        Panic p \<Rightarrow> Panic p | Err e \<Rightarrow> Err e
      | Ok dt \<Rightarrow>
          Ok \<lparr>sha1Fingerprint = ToLower key,
              issuerName = issuer,
              modDate = (case time_ParseInLocation L dt of None \<Rightarrow> zero_Time | Some t \<Rightarrow> t),
              serialNumber = bs2,
              kSecTrustSettingsResult = 0\<rparr>))))"

function convert_loop :: "lib \<Rightarrow> dict \<Rightarrow> dict \<Rightarrow> nat \<Rightarrow> nat \<Rightarrow> trustItems \<Rightarrow> trustItems result" where
  "convert_loop L d2 d3 i max' out =
     (if i < max' then
        (case convert_item L d2 d3 i of
           Panic p \<Rightarrow> Panic p
         | Err e \<Rightarrow> Err e
         | Ok item \<Rightarrow> convert_loop L d2 d3 (i + 2) max' (out @ [item]))
      else Ok out)"
  by pat_completeness auto
termination
  by (relation "measure (\<lambda>(L, d2, d3, i, max', out). max' - i)") auto

declare convert_loop.simps [simp del]

text \<open>Following a nil pointer among \<open>p.ChiDict.ChiDict.ChiDict\<close> is a panic.\<close>

definition convertToTrustItems :: "lib \<Rightarrow> plist \<Rightarrow> trustItems result" where
  "convertToTrustItems L p =
     (case plist_ChiDict p of
        None \<Rightarrow> Panic NilPointerDereference
      | Some d1 \<Rightarrow>
          (case ChiDict d1 of
             None \<Rightarrow> Panic NilPointerDereference
           | Some d2 \<Rightarrow>
               (case ChiDict d2 of
                  None \<Rightarrow> Panic NilPointerDereference
                | Some d3 \<Rightarrow> convert_loop L d2 d3 0 (length (ChiData d3)) [])))"

text \<open>
  Reading a snapshot: \<open>parsePlist\<close> followed by \<open>convertToTrustItems\<close>, as
  \<open>getCertsWithTrustPolicy\<close> does with the exported file.
\<close>

definition parseSnapshot :: "lib \<Rightarrow> string \<Rightarrow> trustItems result" where
  "parseSnapshot L inp =
     (case parsePlist inp of
        Inl err \<Rightarrow> Err err
      | Inr plist \<Rightarrow> convertToTrustItems L plist)"

subsection \<open>trustItems.toXmlFile\<close>

definition toXml_header :: string where
  "toXml_header = ''<plist><dict><key>trustList</key><dict>''"

definition toXml_footer :: string where
  "toXml_footer = ''</dict>'' @ [CHR 0x0A] @ ''  <key>trustVersion</key>'' @ [CHR 0x0A]
     @ ''  <integer>1</integer>'' @ [CHR 0x0A] @ ''</dict></plist>''"

text \<open>The bytes \<open>inner\<close> of one item.\<close>

definition toXml_inner :: "lib \<Rightarrow> trustItem \<Rightarrow> string" where
  "toXml_inner L ti =
     (let key = ''<key>'' @ ToUpper (sha1Fingerprint ti) @ ''</key>'';
          bs = asn1_Marshal L (issuerName ti);
          issuer = ''<key>issuerName</key><data>'' @ base64_EncodeToString L bs @ ''</data>'';
          modDate = ''<key>modDate</key><date>'' @ time_Format L (modDate ti) @ ''</date>'';
          serial = ''<key>serialNumber</key><data>'' @ base64_EncodeToString L (serialNumber ti) @ ''</data>''
      in key @ ''<dict>'' @ issuer @ modDate @ serial @ ''</dict>'')"

fun toXml_out :: "lib \<Rightarrow> trustItems \<Rightarrow> string \<Rightarrow> string" where
  "toXml_out L [] out = out"
| "toXml_out L (ti # t) out = toXml_out L t (out @ toXml_inner L ti)"

text \<open>The bytes \<open>content\<close> that \<open>toXmlFile\<close> writes.\<close>

definition toXml_content :: "lib \<Rightarrow> trustItems \<Rightarrow> string" where
  "toXml_content L t = toXml_header @ (toXml_out L t [] @ toXml_footer)"

definition toXmlFile :: "lib \<Rightarrow> world \<Rightarrow> trustItems \<Rightarrow> string \<Rightarrow> files \<Rightarrow> error option \<times> files" where
  "toXmlFile L w t where' fs =
     (case WriteFile w of
        Some err \<Rightarrow> (Some err, fs)
      | None \<Rightarrow> (None, fs(where' \<mapsto> toXml_content L t)))"

subsection \<open>getCertsWithTrustPolicy and List\<close>

text \<open>
  \<open>defer os.Remove(fd.Name())\<close> evaluates \<open>fd.Name()\<close> when the \<open>defer\<close> statement
  runs, before \<open>err\<close> is looked at: with a nil \<open>fd\<close> that is a nil pointer
  dereference.  The deferred removal runs on every later exit, a panic included.
\<close>

definition getCertsWithTrustPolicy :: "lib \<Rightarrow> world \<Rightarrow> files \<Rightarrow> trustItems result \<times> files" where
  "getCertsWithTrustPolicy L w fs =
     (case trustSettingsExport w fs of
        ((fd, err), fs1) \<Rightarrow>
          (case fd of
             None \<Rightarrow> (Panic NilPointerDereference, fs1)
           | Some name \<Rightarrow>
               (case err of
                  Some e \<Rightarrow> (Err e, os_Remove name fs1)
                | None \<Rightarrow>
                    (parseSnapshot L (case fs1 name of None \<Rightarrow> [] | Some text \<Rightarrow> text),
                     os_Remove name fs1))))"

text \<open>The loop of \<open>List\<close> over the installed certificates.\<close>

fun List_kept :: "lib \<Rightarrow> trustItems \<Rightarrow> Certificate option list \<Rightarrow> Certificate option list \<Rightarrow> Certificate option list" where
  "List_kept L t [] kept = kept"
| "List_kept L t (cert # installed) kept =
     (case cert of
        None \<Rightarrow> List_kept L t installed kept
      | Some c \<Rightarrow>
          if contains L t cert then List_kept L t installed (kept @ [cert])
          else List_kept L t installed kept)"

definition List :: "lib \<Rightarrow> world \<Rightarrow> files \<Rightarrow> Certificate option list result \<times> files" where
  "List L w fs =
     (case readInstalledCerts L w of
        Inl err \<Rightarrow> (Err err, fs)
      | Inr installed \<Rightarrow>
          (case getCertsWithTrustPolicy L w fs of
             (Panic p, fs1) \<Rightarrow> (Panic p, fs1)
           | (Err err, fs1) \<Rightarrow> (Err err, fs1)
           | (Ok t, fs1) \<Rightarrow> (Ok (List_kept L t installed []), fs1)))"

subsection \<open>getLatestBackupFile and Restore\<close>

definition getLatestBackupFile :: "lib \<Rightarrow> world \<Rightarrow> string \<times> error option" where
  "getLatestBackupFile L w =
     (case getCertManageDir L w of
        (dir, Some err) \<Rightarrow> ([], Some err)
      | (dir, None) \<Rightarrow>
          (case ReadDir w dir of
             Inl err \<Rightarrow> ([], Some err)
           | Inr fis \<Rightarrow>
               if length fis = 0 then ([], None)
               else
                 let sorted = SortFileInfos L fis;
                     latest = sorted ! (length sorted - 1)
                 in (filepath_Join L dir (fi_Name latest), None)))"

text \<open>The restore point \<open>Restore\<close> settles on before it checks anything.\<close>

definition Restore_where :: "lib \<Rightarrow> world \<Rightarrow> string \<Rightarrow> string" where
  "Restore_where L w where' = (if where' = [] then fst (getLatestBackupFile L w) else where')"

definition Restore :: "lib \<Rightarrow> world \<Rightarrow> files \<Rightarrow> string \<Rightarrow> error option" where
  "Restore L w fs where' =
     (let where'' = Restore_where L w where' in
      if where'' = [] then Some (errors_New ''No backup file found and -file not specified'')
      else if \<not> file_Exists fs where'' then Some (errors_New ''Restore file doesn't exist'')
      else security_import w where'')"

subsection \<open>Sample inputs\<close>

text \<open>
  A library instance given by tables: on the sample certificates, names, byte strings
  and dates below its functions take the values listed, and \<open>pem.Parse\<close> returns the
  pointers \<open>cs\<close>.  \<open>MAA=\<close> and \<open>AQ==\<close> are the base64 encodings of the bytes \<open>30 00\<close>
  (the DER encoding of an empty name) and \<open>01\<close>.
\<close>

definition join_paths :: "string \<Rightarrow> string \<Rightarrow> string" where
  "join_paths a b = a @ ''/'' @ dropWhile (\<lambda>c. c = CHR ''/'') b"

text \<open>
  Modelled from the spec: \<open>file.SortFileInfos\<close> of \<open>tools/file\<close> is not among the
  sources.  The spec orders the backups by the lexical order of their file names, which
  embed the timestamp; the sort is taken to order the entries by name, byte by byte,
  a proper prefix first (the order of Go's string comparison).
\<close>

definition SortFileInfos_spec :: "FileInfo list \<Rightarrow> FileInfo list" where
  "SortFileInfos_spec fis = sort_key fi_Name fis"

definition sample_time :: Time where
  "sample_time = \<lparr>unix = 1507510923, nsec = 0, utc_offset = 0\<rparr>"

definition sample_lib :: "Certificate option list \<Rightarrow> lib" where
  "sample_lib cs =
     \<lparr>GetHexSHA1Fingerprint = (\<lambda>c. if c = cert_a then ''a1a1a1a1'' else if c = cert_b then ''b2b2b2b2'' else []),
      pem_Parse = (\<lambda>b. Inr cs),
      SortFileInfos = SortFileInfos_spec,
      filepath_Join = join_paths,
      base64_EncodeToString = (\<lambda>bs. if bs = [48, 0] then ''MAA='' else if bs = [1] then ''AQ=='' else []),
      base64_DecodeString = (\<lambda>s. if s = ''MAA='' then [48, 0] else if s = ''AQ=='' then [1] else []),
      asn1_Marshal = (\<lambda>name. [48, 0]),
      asn1_Unmarshal = (\<lambda>bs. if bs = [48, 0] then Some zero_Name else None),
      time_Format = (\<lambda>t. if t = sample_time then ''2017-10-09T01:02:03Z'' else []),
      time_ParseInLocation = (\<lambda>s. if s = ''2017-10-09T01:02:03Z'' then Some sample_time else None)\<rparr>"

text \<open>The trust record of \<open>cert_a\<close>, and the document \<open>toXmlFile\<close> writes for it with
  the outer \<open>dict\<close> element taken away (its children are left in place).\<close>

definition item_a :: trustItem where
  "item_a = \<lparr>sha1Fingerprint = ''a1a1a1a1'', issuerName = zero_Name, modDate = sample_time,
     serialNumber = [1], kSecTrustSettingsResult = 0\<rparr>"

definition export_a_no_outer_dict :: string where
  "export_a_no_outer_dict = ''<plist><key>trustList</key><dict><key>A1A1A1A1</key><dict><key>issuerName</key><data>MAA=</data><key>modDate</key><date>2017-10-09T01:02:03Z</date><key>serialNumber</key><data>AQ==</data></dict></dict><key>trustVersion</key><integer>1</integer></plist>''"

text \<open>
  A document with the prolog of a property list as the export tool writes it (XML
  declaration, document type, \<open>version\<close> attribute), an empty-element tag and line
  ends.
\<close>

definition export_with_prolog :: string where
  "export_with_prolog =
     ''<?xml version='' @ [CHR 0x22] @ ''1.0'' @ [CHR 0x22] @ '' encoding='' @ [CHR 0x22]
       @ ''UTF-8'' @ [CHR 0x22] @ ''?>'' @ [CHR 0x0A]
     @ ''<!DOCTYPE plist PUBLIC '' @ [CHR 0x22] @ ''-//Apple//DTD PLIST 1.0//EN'' @ [CHR 0x22]
       @ '' '' @ [CHR 0x22] @ ''http://www.apple.com/DTDs/PropertyList-1.0.dtd'' @ [CHR 0x22]
       @ ''>'' @ [CHR 0x0A]
     @ ''<plist version='' @ [CHR 0x22] @ ''1.0'' @ [CHR 0x22] @ ''>'' @ [CHR 0x0A]
     @ ''<dict><key>trustList</key><dict><key>AB</key><dict>''
     @ ''<key>modDate</key><date>2017-10-09T00:46:43Z</date>''
     @ ''<key>trustSettings</key><array/>''
     @ ''</dict></dict></dict>'' @ [CHR 0x0A] @ ''</plist>'' @ [CHR 0x0A]"

text \<open>
  The directory entry of the backup that \<open>Backup\<close> writes at the Unix time \<open>T\<close>: the
  name is the one \<open>Backup\<close> builds, the file is not touched after it is written.
\<close>

definition backup_info :: "int \<Rightarrow> FileInfo" where
  "backup_info T = \<lparr>fi_Name = ''trust-backup-'' @ Sprintf_d T @ ''.xml'', fi_ModTime = T\<rparr>"

text \<open>
  A run in which every call succeeds: the export tool writes the snapshot holding the
  record of \<open>cert_a\<close>, the backup directory holds three backups, and the import tool
  accepts the newest of them only.
\<close>

definition sample_world :: world where
  "sample_world =
     \<lparr>TempFile = Inr ''/tmp/trust-settings042'',
      security_export = Inr (toXml_content (sample_lib []) [item_a]),
      security_find_certificate = Inr ''-----BEGIN CERTIFICATE-----'',
      security_import = (\<lambda>path. if path = ''/Users/ann/Library/cert-manage/trust-backup-1507510003.xml'' then None
                                 else Some (ExternalError ''exit status 1'')),
      user_Current = Inr ''/Users/ann'',
      now_Unix = 1507510923,
      MkdirAll = None,
      CopyFile = None,
      WriteFile = None,
      ReadDir = (\<lambda>dir. if dir = ''/Users/ann/Library/cert-manage''
                         then Inr [backup_info 1507510001, backup_info 1507510002, backup_info 1507510003]
                         else Inl (ExternalError ''no such file or directory''))\<rparr>"

definition sample_files :: files where
  "sample_files = [''/Users/ann/Library/cert-manage/trust-backup-1507510003.xml'' \<mapsto> toXml_content (sample_lib []) [item_a]]"

text \<open>What \<open>pem.Parse\<close> returns in the examples: a nil entry, and \<open>cert_a\<close> twice.\<close>

definition sample_dump :: "Certificate option list" where
  "sample_dump = [None, Some cert_a, Some cert_b, Some cert_a]"

text \<open>The name \<open>Backup\<close> gives the backup it writes at the Unix time \<open>T\<close>.\<close>

definition backup_name :: "int \<Rightarrow> string" where
  "backup_name T = ''trust-backup-'' @ Sprintf_d T @ ''.xml''"

text \<open>
  A third certificate, with the signature of \<open>cert_a\<close> and other contents.
\<close>

definition cert_c :: Certificate where
  "cert_c = \<lparr>Raw = [48, 3], Signature = [7, 7], Issuer = \<lparr>Country = [''US''], Organization = [''Acme''], CommonName = ''Acme Root''\<rparr>, SerialNumber = [3]\<rparr>"

subsection \<open>Deduplication by signature, as the claim words it\<close>

text \<open>
  The certificates of the non-nil entries of a dump, in the order of the dump; and, of a
  list of certificates, those that no earlier certificate of the list shares its
  signature with, in the order of the list.
\<close>

fun non_nil :: "Certificate option list \<Rightarrow> Certificate list" where
  "non_nil [] = []"
| "non_nil (None # cs) = non_nil cs"
| "non_nil (Some c # cs) = c # non_nil cs"

definition first_per_signature :: "Certificate list \<Rightarrow> Certificate list" where
  "first_per_signature xs =
     map (\<lambda>i. xs ! i)
       (filter (\<lambda>i. \<forall>j<i. Signature (xs ! j) \<noteq> Signature (xs ! i)) [0..<length xs])"

text \<open>
  Two more runs: one whose backup directory holds the backups written at the Unix times
  8, 9 and 10 (listed by name, as \<open>ioutil.ReadDir\<close> does), and one whose backup directory
  holds a single file that is no backup, which is on disk and which the import tool
  accepts.
\<close>

definition world_8_9_10 :: world where
  "world_8_9_10 = sample_world\<lparr>ReadDir := \<lambda>dir. Inr [backup_info 10, backup_info 8, backup_info 9]\<rparr>"

definition world_other_file :: world where
  "world_other_file =
     sample_world\<lparr>ReadDir := \<lambda>dir. Inr [\<lparr>fi_Name = ''.DS_Store'', fi_ModTime = 1507510000\<rparr>],
                  security_import := \<lambda>path. None\<rparr>"

definition files_other_file :: files where
  "files_other_file = [''/Users/ann/Library/cert-manage/.DS_Store'' \<mapsto> []]"

section \<open>Properties of Keep\<close>

lemma set_Keep_whitelisted:
  "set (Keep_whitelisted inc whs keep) =
     set keep \<union> {p. p = inc \<and> (\<exists>c. inc = Some c \<and> (\<exists>wh \<in> set whs. wh c))}"
  by (induction whs arbitrary: keep) (auto split: option.splits)

lemma set_Keep_incoming:
  "set (Keep_incoming incoming whs keep) =
     set keep \<union> {p \<in> set incoming. \<exists>c. p = Some c \<and> (\<exists>wh \<in> set whs. wh c)}"
  by (induction incoming arbitrary: keep) (auto simp: set_Keep_whitelisted)

lemma set_Keep:
  "set (Keep incoming whs) = {p \<in> set incoming. \<exists>c. p = Some c \<and> (\<exists>wh \<in> set whs. wh c)}"
  by (simp add: Keep_def set_Keep_incoming)

lemma Keep_incoming_no_items: "Keep_incoming incoming [] keep = keep"
  by (induction incoming arbitrary: keep) simp_all

text \<open>
  C7.  With an empty whitelist \<open>Keep\<close> returns the empty list, whatever the incoming
  certificates are (in particular for every non-empty list of them).
\<close>

theorem Keep_empty_whitelist: "Keep certs [] = []"
  by (simp add: Keep_def Keep_incoming_no_items)

text \<open>
  C8.  Filtering the output of \<open>Keep\<close> again with the same whitelist gives the same
  certificates, compared as sets (order and repetitions ignored).
\<close>

theorem Keep_idempotent_set: "set (Keep (Keep certs wl) wl) = set (Keep certs wl)"
  by (auto simp: set_Keep)

text \<open>
  C10.  The elements of the output of \<open>Keep\<close> are exactly the non-nil pointers of the
  incoming list whose certificate is matched by at least one whitelist item; the nil
  pointer is never in the output.
\<close>

theorem Keep_characterization:
  "set (Keep incoming whitelisted) =
     {p \<in> set incoming. \<exists>c. p = Some c \<and> (\<exists>wh \<in> set whitelisted. wh c)}
   \<and> None \<notin> set (Keep incoming whitelisted)"
  by (auto simp: set_Keep)

text \<open>
  C2.  The claim that no fingerprint occurs twice in the output of \<open>Keep\<close> fails on
  the code: a certificate is appended once for every whitelist item that matches it.
  Here one certificate is matched by its signature and by the common name of its
  issuer, and the output holds it twice, so whatever the fingerprint function \<open>fp\<close>
  is, the fingerprints of the output are not distinct.
\<close>

theorem Keep_appends_once_per_matching_item:
  "Keep [Some cert_a] [signature_item [7, 7], issuer_cn_item ''Acme Root''] = [Some cert_a, Some cert_a]
   \<and> \<not> distinct (map (map_option fp) (Keep [Some cert_a] [signature_item [7, 7], issuer_cn_item ''Acme Root'']))"
  by (simp add: Keep_def signature_item_def issuer_cn_item_def cert_a_def)

section \<open>Properties of the darwin store\<close>

lemmas xml_eval = parsePlist_def mk_tag_def split_name_def mk_chardata_def is_name_char_def
  is_name_start_def is_alnum_def is_xml_space_def is_quote_def copy_bool_def
  ParseBool_def TrimSpace_def is_space_def empty_dict_def

lemmas convert_eval = convertToTrustItems_def convert_loop.simps convert_item_def index_def
  r2_Replace_def r_ReplaceAllString_def in_base64_class_def is_alnum_def ToLower_def to_lower_def

lemmas toXml_eval = toXml_content_def toXml_header_def toXml_footer_def toXml_inner_def
  ToUpper_def to_upper_def

text \<open>The prolog, the attribute and the empty element are read and give no field.\<close>

lemma parsePlist_export_with_prolog:
  "parsePlist export_with_prolog =
     Inr (Plist (Some (Dict [] []
       (Some (Dict [] []
          (Some (Dict [] [''2017-10-09T00:46:43Z''] None [] [''modDate'', ''trustSettings'']))
          [] [''AB'']))
       [] [''trustList''])))"
  by (simp add: export_with_prolog_def xml_eval entity_def directive_step_def)

lemma parsePlist_empty_snapshot:
  "parsePlist (toXml_content L []) =
     Inr (Plist (Some (Dict [] [] (Some (Dict [] [] None [] [])) [True] [''trustList'', ''trustVersion''])))"
  by (simp add: toXml_eval xml_eval)

text \<open>
  C1.  The round trip fails on the snapshot with no records: \<open>toXmlFile\<close> writes a
  \<open>trustList\<close> dict without children, the decoder leaves the innermost \<open>ChiDict\<close>
  pointer nil, and \<open>convertToTrustItems\<close> panics instead of returning the empty
  snapshot.  This holds whatever the library functions are.
\<close>

theorem roundtrip_empty_snapshot_panics:
  "parseSnapshot L (toXml_content L []) = Panic NilPointerDereference"
  by (simp add: parseSnapshot_def parsePlist_empty_snapshot convertToTrustItems_def)

lemma parsePlist_no_outer_dict:
  "parsePlist export_a_no_outer_dict =
     Inr (Plist (Some (Dict [] [] (Some (Dict [''MAA='', ''AQ==''] [''2017-10-09T01:02:03Z''] None []
       [''issuerName'', ''modDate'', ''serialNumber''])) [] [''A1A1A1A1''])))"
  by (simp add: export_a_no_outer_dict_def xml_eval)

text \<open>
  C3.  A document without the outer \<open>dict\<close> element is decoded by \<open>parsePlist\<close>
  without an error (the inner elements fill the structs one level up), and
  \<open>convertToTrustItems\<close> then panics on the nil pointer: reading the snapshot does not
  fail with an error.
\<close>

theorem missing_outer_dict_panics:
  "parsePlist export_a_no_outer_dict =
     Inr (Plist (Some (Dict [] [] (Some (Dict [''MAA='', ''AQ==''] [''2017-10-09T01:02:03Z''] None []
       [''issuerName'', ''modDate'', ''serialNumber''])) [] [''A1A1A1A1''])))
   \<and> parseSnapshot L export_a_no_outer_dict = Panic NilPointerDereference"
  by (simp add: parseSnapshot_def parsePlist_no_outer_dict convertToTrustItems_def)

text \<open>
  C9.  The path that reads the snapshot does panic: \<open>getCertsWithTrustPolicy\<close>
  dereferences the nil file whenever \<open>trustSettingsExport\<close> returns an error (the export
  tool fails, or no temporary file can be created), and \<open>convertToTrustItems\<close> panics
  when a \<open>dict\<close> level is missing, when the data array has odd length, and when the key
  or date array is shorter than half the data array.
\<close>

theorem snapshot_reading_panics:
  "fst (getCertsWithTrustPolicy L (w\<lparr>security_export := Inl e\<rparr>) fs) = Panic NilPointerDereference
   \<and> fst (getCertsWithTrustPolicy L (w\<lparr>TempFile := Inl e\<rparr>) fs) = Panic NilPointerDereference
   \<and> convertToTrustItems L (Plist None) = Panic NilPointerDereference
   \<and> convertToTrustItems L (Plist (Some (Dict [] [] (Some (Dict [] [] None [] [])) [] []))) = Panic NilPointerDereference
   \<and> convertToTrustItems L (Plist (Some (Dict [] [] (Some (Dict [] [] (Some (Dict [x] [dt] None [] [])) [] [k])) [] []))) = Panic IndexOutOfRange
   \<and> convertToTrustItems L (Plist (Some (Dict [] [] (Some (Dict [] [] (Some (Dict [x, y] [dt] None [] [])) [] [])) [] []))) = Panic IndexOutOfRange
   \<and> convertToTrustItems L (Plist (Some (Dict [] [] (Some (Dict [] [] (Some (Dict [x, y] [] None [] [])) [] [k])) [] []))) = Panic IndexOutOfRange"
  by (simp add: getCertsWithTrustPolicy_def trustSettingsExport_def convertToTrustItems_def
      convert_loop.simps convert_item_def index_def split: sum.splits)

text \<open>
  C6.  When the temporary file \<open>name\<close> has been created and the export tool fails,
  \<open>Backup\<close> returns the error and the temporary file is still there:
  \<open>trustSettingsExport\<close> has returned a nil file, so no removal was deferred.
\<close>

theorem Backup_leaves_temp_file:
  "Backup L (w\<lparr>TempFile := Inr name, security_export := Inl e\<rparr>) fs = (Err e, fs(name \<mapsto> []))
   \<and> snd (Backup L (w\<lparr>TempFile := Inr name, security_export := Inl e\<rparr>) fs) name \<noteq> None"
  by (simp add: Backup_def trustSettingsExport_def)

lemma readInstalledCerts_add_iff:
  "readInstalledCerts_add c res \<longleftrightarrow> Signature c \<notin> Signature ` set res"
  by (induction res) auto

lemma upt_Suc_shift: "[0..<Suc n] = 0 # map Suc [0..<n]"
  by (simp add: upt_conv_Cons map_Suc_upt del: upt_Suc)

lemma readInstalledCerts_loop_first:
  "readInstalledCerts_loop cs res =
     res @ map (\<lambda>i. non_nil cs ! i)
       (filter (\<lambda>i. Signature (non_nil cs ! i) \<notin> Signature ` set res
                    \<and> (\<forall>j<i. Signature (non_nil cs ! j) \<noteq> Signature (non_nil cs ! i)))
          [0..<length (non_nil cs)])"
proof (induction cs res rule: readInstalledCerts_loop.induct)
  case (1 res)
  show ?case by simp
next
  case (2 cs res)
  then show ?case by simp
next
  case (3 c cs res)
  let ?xs = "non_nil cs"
  show ?case
  proof (cases "readInstalledCerts_add c res")
    case True
    then have new: "Signature c \<notin> Signature ` set res"
      by (simp add: readInstalledCerts_add_iff)
    have "filter (\<lambda>i. Signature (?xs ! i) \<notin> Signature ` set (res @ [c])
                    \<and> (\<forall>j<i. Signature (?xs ! j) \<noteq> Signature (?xs ! i))) [0..<length ?xs]
        = filter (\<lambda>i. Signature (?xs ! i) \<notin> Signature ` set res \<and> Signature c \<noteq> Signature (?xs ! i)
                    \<and> (\<forall>j<i. Signature (?xs ! j) \<noteq> Signature (?xs ! i))) [0..<length ?xs]"
      by (rule filter_cong) auto
    with 3 True new show ?thesis
      by (simp add: upt_Suc_shift filter_map comp_def All_less_Suc2 del: upt_Suc)
  next
    case False
    then have old: "Signature c \<in> Signature ` set res"
      by (simp add: readInstalledCerts_add_iff)
    have "filter (\<lambda>i. Signature (?xs ! i) \<notin> Signature ` set res
                    \<and> (\<forall>j<i. Signature (?xs ! j) \<noteq> Signature (?xs ! i))) [0..<length ?xs]
        = filter (\<lambda>i. Signature (?xs ! i) \<notin> Signature ` set res \<and> Signature c \<noteq> Signature (?xs ! i)
                    \<and> (\<forall>j<i. Signature (?xs ! j) \<noteq> Signature (?xs ! i))) [0..<length ?xs]"
      using old by (intro filter_cong) auto
    with 3 False old show ?thesis
      by (simp add: upt_Suc_shift filter_map comp_def All_less_Suc2 del: upt_Suc)
  qed
qed

lemma readInstalledCerts_loop_first_per_signature:
  "readInstalledCerts_loop cs [] = first_per_signature (non_nil cs)"
  by (simp add: readInstalledCerts_loop_first [of cs "[]"] first_per_signature_def)

lemma contains_loop_iff: "contains_loop fp t \<longleftrightarrow> fp \<in> sha1Fingerprint ` set t"
  by (induction t) auto

lemma List_kept_filter:
  "List_kept L t installed kept =
     kept @ filter (\<lambda>p. \<exists>c. p = Some c \<and> GetHexSHA1Fingerprint L c \<in> sha1Fingerprint ` set t) installed"
  by (induction installed arbitrary: kept) (auto simp: contains_def contains_loop_iff split: option.splits)

text \<open>
  C5 (as amended).  \<open>List\<close> returns a list exactly when the dump of the installed
  certificates parses and the snapshot is read without error or panic.  The list then
  holds, in the order of the dump, the certificates of the non-nil entries of the dump
  that no earlier entry shares its signature with and whose SHA-1 fingerprint is the
  fingerprint of a record of the snapshot.  (So the first certificate of each signature
  stands for the signature, nil entries and certificates without a trust record are
  left out.)
\<close>

theorem List_intersection:
  "fst (List L w fs) = Ok kept \<longleftrightarrow>
     (\<exists>b cs t. security_find_certificate w = Inr b \<and> pem_Parse L b = Inr cs
        \<and> fst (getCertsWithTrustPolicy L w fs) = Ok t
        \<and> kept = map Some (filter (\<lambda>c. GetHexSHA1Fingerprint L c \<in> sha1Fingerprint ` set t)
                             (first_per_signature (non_nil cs))))"
proof -
  have filt: "filter (\<lambda>p. \<exists>c. p = Some c \<and> P c) (map Some xs) = map Some (filter P xs)"
    for P and xs :: "Certificate list"
    by (induction xs) auto
  show ?thesis
    by (auto simp: List_def readInstalledCerts_def List_kept_filter filt
        readInstalledCerts_loop_first_per_signature
        split: sum.splits prod.splits result.splits)
qed

lemma parse_sample_export: "parseSnapshot (sample_lib cs) (toXml_content (sample_lib []) [item_a]) = Ok [item_a]"
  by (simp add: toXml_eval xml_eval parseSnapshot_def convert_eval sample_lib_def item_a_def)

lemma sample_policy: "getCertsWithTrustPolicy (sample_lib cs) sample_world Map.empty = (Ok [item_a], Map.empty)"
  by (simp add: getCertsWithTrustPolicy_def trustSettingsExport_def sample_world_def parse_sample_export os_Remove_def)

lemma sample_lib_sel:
  "GetHexSHA1Fingerprint (sample_lib cs) c = (if c = cert_a then ''a1a1a1a1'' else if c = cert_b then ''b2b2b2b2'' else [])"
  "pem_Parse (sample_lib cs) b = Inr cs"
  "SortFileInfos (sample_lib cs) = SortFileInfos_spec"
  "filepath_Join (sample_lib cs) = join_paths"
  by (simp_all add: sample_lib_def)

lemma sample_installed: "readInstalledCerts (sample_lib sample_dump) sample_world = Inr [Some cert_a, Some cert_b]"
  by (simp add: readInstalledCerts_def sample_lib_sel sample_world_def sample_dump_def cert_a_def cert_b_def)

lemma cert_b_neq_a: "cert_b \<noteq> cert_a"
  by (simp add: cert_a_def cert_b_def)

lemma sample_List: "fst (List (sample_lib sample_dump) sample_world Map.empty) = Ok [Some cert_a]"
  by (simp add: List_def sample_installed sample_policy contains_def sample_lib_sel cert_b_neq_a) (simp add: item_a_def)

text \<open>
  C5, the claim as stated fails: \<open>contains\<close> answers true for the nil pointer, but the
  nil entry of the dump is dropped, it is not in the list \<open>List\<close> returns.
\<close>

theorem List_drops_nil_counterexample:
  "contains (sample_lib sample_dump) [item_a] None
   \<and> None \<in> set sample_dump
   \<and> pem_Parse (sample_lib sample_dump) ''-----BEGIN CERTIFICATE-----'' = Inr sample_dump
   \<and> fst (List (sample_lib sample_dump) sample_world Map.empty) = Ok [Some cert_a]
   \<and> None \<notin> set [Some cert_a]"
  by (simp add: sample_List contains_def sample_lib_sel) (simp add: sample_dump_def)

lemma sample_installed_duplicate:
  "readInstalledCerts (sample_lib [Some cert_c, None, Some cert_a]) sample_world = Inr [Some cert_c]"
  by (simp add: readInstalledCerts_def sample_lib_sel sample_world_def cert_a_def cert_c_def)

lemma cert_c_neq: "cert_c \<noteq> cert_a" "cert_c \<noteq> cert_b"
  by (simp_all add: cert_a_def cert_b_def cert_c_def)

lemma sample_List_duplicate:
  "fst (List (sample_lib [Some cert_c, None, Some cert_a]) sample_world Map.empty) = Ok []"
  by (simp add: List_def sample_installed_duplicate sample_policy contains_def sample_lib_sel cert_c_neq)
     (simp add: item_a_def)

text \<open>
  C5, on the sample runs: from the dump nil, \<open>cert_a\<close>, \<open>cert_b\<close>, \<open>cert_a\<close> and the
  snapshot holding the record of \<open>cert_a\<close>, \<open>List\<close> returns \<open>cert_a\<close> once; from the dump
  \<open>cert_c\<close>, nil, \<open>cert_a\<close> it returns nothing, since \<open>cert_c\<close> comes first with the
  signature of \<open>cert_a\<close> and has no trust record.
\<close>

theorem List_intersection_witness:
  "fst (List (sample_lib sample_dump) sample_world Map.empty) = Ok [Some cert_a]
   \<and> (\<exists>b cs t. security_find_certificate sample_world = Inr b \<and> pem_Parse (sample_lib sample_dump) b = Inr cs
         \<and> fst (getCertsWithTrustPolicy (sample_lib sample_dump) sample_world Map.empty) = Ok t
         \<and> [Some cert_a] = map Some (filter (\<lambda>c. GetHexSHA1Fingerprint (sample_lib sample_dump) c \<in> sha1Fingerprint ` set t)
                              (first_per_signature (non_nil cs))))
   \<and> fst (List (sample_lib [Some cert_c, None, Some cert_a]) sample_world Map.empty) = Ok []"
  using List_intersection [of "sample_lib sample_dump" sample_world Map.empty "[Some cert_a]"]
    sample_List sample_List_duplicate
  by simp

lemma digit_char_less: "m < n \<Longrightarrow> n < 10 \<Longrightarrow> ''0123456789'' ! m < ''0123456789'' ! n"
proof -
  assume lt: "m < n" and "n < 10"
  then have "n \<in> {1, 2, 3, 4, 5, 6, 7, 8, 9}" and "m \<in> {0, 1, 2, 3, 4, 5, 6, 7, 8}"
    by auto
  with lt show ?thesis by auto
qed

lemma digits_not_Nil: "digits n \<noteq> []"
  by (subst digits.simps) simp

lemma length_digits_small: "n < 10 \<Longrightarrow> length (digits n) = 1"
  by (subst digits.simps) simp

lemma length_digits_large: "\<not> n < 10 \<Longrightarrow> length (digits n) = Suc (length (digits (n div 10)))"
  by (subst digits.simps) simp

lemma less_append_same_length:
  fixes xs ys :: string
  assumes "xs < ys" and "length xs = length ys"
  shows "xs @ u < ys @ v"
  using assms unfolding list_less_def by (simp add: lexord_sufI)

lemma less_append_same_prefix:
  fixes u v :: string
  shows "u < v \<Longrightarrow> xs @ u < xs @ v"
  unfolding list_less_def by (rule lexord_append_leftI)

lemma singleton_less:
  fixes x y :: char
  shows "x < y \<Longrightarrow> [x] < [y]"
  by simp

lemma digits_small: "n < 10 \<Longrightarrow> digits n = [''0123456789'' ! n]"
  by (subst digits.simps) (simp only: if_True)

lemma digits_less:
  "a < b \<Longrightarrow> length (digits a) = length (digits b) \<Longrightarrow> digits a < digits b"
proof (induction a arbitrary: b rule: digits.induct)
  case (1 a)
  show ?case
  proof (cases "a < 10")
    case small_a: True
    show ?thesis
    proof (cases "b < 10")
      case True
      from "1.prems"(1) True have "''0123456789'' ! a < ''0123456789'' ! b"
        by (rule digit_char_less)
      then have "[''0123456789'' ! a] < [''0123456789'' ! b]"
        by (rule singleton_less)
      then show ?thesis
        by (simp only: digits_small [OF small_a] digits_small [OF True])
    next
      case False
      with small_a "1.prems"(2) digits_not_Nil [of "b div 10"] show ?thesis
        by (simp add: length_digits_small length_digits_large)
    qed
  next
    case large_a: False
    with "1.prems"(1) have large_b: "\<not> b < 10" by simp
    from "1.prems"(2) large_a large_b
    have len: "length (digits (a div 10)) = length (digits (b div 10))"
      by (simp add: length_digits_large)
    have da: "digits a = digits (a div 10) @ [''0123456789'' ! (a mod 10)]"
      using large_a by (subst digits.simps) simp
    have db: "digits b = digits (b div 10) @ [''0123456789'' ! (b mod 10)]"
      using large_b by (subst digits.simps) simp
    from "1.prems"(1) have "a div 10 \<le> b div 10" by (simp add: div_le_mono)
    then consider "a div 10 < b div 10" | "a div 10 = b div 10" by linarith
    then show ?thesis
    proof cases
      case 1
      from "1.IH" [OF large_a this len] have "digits (a div 10) < digits (b div 10)" .
      then show ?thesis
        unfolding da db using len by (rule less_append_same_length)
    next
      case 2
      with "1.prems"(1) have "a mod 10 < b mod 10"
        by (metis div_mult_mod_eq nat_add_left_cancel_less)
      then have "''0123456789'' ! (a mod 10) < ''0123456789'' ! (b mod 10)"
        by (rule digit_char_less) simp
      then have "[''0123456789'' ! (a mod 10)] < [''0123456789'' ! (b mod 10)]"
        by (rule singleton_less)
      then show ?thesis
        unfolding da db 2 by (rule less_append_same_prefix)
    qed
  qed
qed

lemma backup_name_less:
  assumes "0 \<le> T1" and "T1 < T2" and "length (Sprintf_d T1) = length (Sprintf_d T2)"
  shows "backup_name T1 < backup_name T2"
proof -
  from assms have "digits (nat T1) < digits (nat T2)"
    by (intro digits_less) (simp_all add: Sprintf_d_def)
  moreover from assms have "length (digits (nat T1)) = length (digits (nat T2))"
    by (simp add: Sprintf_d_def)
  ultimately have "digits (nat T1) @ ''.xml'' < digits (nat T2) @ ''.xml''"
    by (rule less_append_same_length)
  then have "''trust-backup-'' @ digits (nat T1) @ ''.xml'' < ''trust-backup-'' @ digits (nat T2) @ ''.xml''"
    by (rule less_append_same_prefix)
  with assms show ?thesis by (simp add: backup_name_def Sprintf_d_def)
qed


lemma getLatestBackupFile_latest:
  assumes "user_Current w = Inr home"
    and "ReadDir w (filepath_Join L home ''/Library/cert-manage'') = Inr fis"
    and "fis \<noteq> []"
    and "SortFileInfos L fis \<noteq> []"
  shows "getLatestBackupFile L w =
     (filepath_Join L (filepath_Join L home ''/Library/cert-manage'') (fi_Name (last (SortFileInfos L fis))), None)"
  using assms by (simp add: getLatestBackupFile_def getCertManageDir_def Let_def last_conv_nth)

lemma Restore_where_given: "where' \<noteq> [] \<Longrightarrow> Restore_where L w where' = where'"
  by (simp add: Restore_where_def)

lemma getLatestBackupFile_none:
  assumes "case user_Current w of
           Inl err \<Rightarrow> True
         | Inr home \<Rightarrow>
             (case ReadDir w (filepath_Join L home ''/Library/cert-manage'') of
                Inl err \<Rightarrow> True
              | Inr fis \<Rightarrow> fis = [])"
  shows "fst (getLatestBackupFile L w) = []"
proof (cases "user_Current w")
  case (Inl e)
  then show ?thesis by (simp add: getLatestBackupFile_def getCertManageDir_def)
next
  case u: (Inr home)
  show ?thesis
  proof (cases "ReadDir w (filepath_Join L home ''/Library/cert-manage'')")
    case (Inl e)
    with u show ?thesis by (simp add: getLatestBackupFile_def getCertManageDir_def)
  next
    case (Inr fis)
    with assms u have "fis = []" by simp
    with u Inr show ?thesis by (simp add: getLatestBackupFile_def getCertManageDir_def)
  qed
qed

lemma Restore_no_backup:
  assumes "fst (getLatestBackupFile L w) = []"
  shows "Restore L w fs [] = Some (errors_New ''No backup file found and -file not specified'')"
  using assms by (simp add: Restore_def Restore_where_def)

lemma Restore_missing:
  "Restore_where L w where' \<noteq> [] \<Longrightarrow> \<not> file_Exists fs (Restore_where L w where') \<Longrightarrow>
     Restore L w fs where' = Some (errors_New ''Restore file doesn't exist'')"
  by (simp add: Restore_def)

lemma Restore_run:
  "Restore_where L w where' \<noteq> [] \<Longrightarrow> file_Exists fs (Restore_where L w where') \<Longrightarrow>
     Restore L w fs where' = security_import w (Restore_where L w where')"
  by (simp add: Restore_def)

lemma Sprintf_d_samples:
  "Sprintf_d 1507510001 = ''1507510001''" "Sprintf_d 1507510002 = ''1507510002''" "Sprintf_d 1507510003 = ''1507510003''"
  unfolding Sprintf_d_def by ((subst digits.simps, simp)+)+

lemma sorted_map_last_max:
  "sorted (map f ys) \<Longrightarrow> y \<in> set ys \<Longrightarrow> f y \<le> f (last ys)"
  by (induction ys) (auto split: if_splits)

lemma SortFileInfos_spec_last:
  assumes "fis \<noteq> []"
  shows "SortFileInfos_spec fis \<noteq> [] \<and> last (SortFileInfos_spec fis) \<in> set fis
     \<and> (\<forall>g \<in> set fis. fi_Name g \<le> fi_Name (last (SortFileInfos_spec fis)))"
proof -
  let ?s = "sort_key fi_Name fis"
  have ne: "?s \<noteq> []" using assms by (metis length_sort length_0_conv)
  have "last ?s \<in> set ?s" using ne by (rule last_in_set)
  then have mem: "last ?s \<in> set fis" by simp
  have "sorted (map fi_Name ?s)" by (rule sorted_sort_key)
  then have "\<forall>g \<in> set ?s. fi_Name g \<le> fi_Name (last ?s)"
    by (blast intro: sorted_map_last_max)
  with ne mem show ?thesis by (simp add: SortFileInfos_spec_def)
qed

lemma Restore_where_latest:
  assumes "SortFileInfos L = SortFileInfos_spec"
    and "user_Current w = Inr home"
    and "ReadDir w (filepath_Join L home ''/Library/cert-manage'') = Inr fis"
    and "fis \<noteq> []"
  shows "Restore_where L w [] =
      filepath_Join L (filepath_Join L home ''/Library/cert-manage'') (fi_Name (last (SortFileInfos_spec fis)))"
proof -
  from assms(1,4) have "SortFileInfos L fis \<noteq> []"
    by (simp add: SortFileInfos_spec_last)
  with assms(2-4) have "Restore_where L w [] =
      filepath_Join L (filepath_Join L home ''/Library/cert-manage'') (fi_Name (last (SortFileInfos L fis)))"
    by (simp add: Restore_where_def getLatestBackupFile_latest)
  then show ?thesis by (simp only: assms(1))
qed

lemma last_name_of_three:
  assumes s: "fi_Name ` set fis = {backup_name T1, backup_name T2, backup_name T3}"
    and pos: "0 \<le> T1" and lt: "T1 < T2" "T2 < T3"
    and len: "length (Sprintf_d T1) = length (Sprintf_d T2)" "length (Sprintf_d T2) = length (Sprintf_d T3)"
  shows "fi_Name (last (SortFileInfos_spec fis)) = backup_name T3"
proof -
  from s have ne: "fis \<noteq> []" by auto
  let ?l = "last (SortFileInfos_spec fis)"
  from SortFileInfos_spec_last [OF ne] have mem: "?l \<in> set fis"
    and mx: "\<forall>g \<in> set fis. fi_Name g \<le> fi_Name ?l" by blast+
  have l12: "backup_name T1 < backup_name T2"
    using pos lt(1) len(1) by (rule backup_name_less)
  have l23: "backup_name T2 < backup_name T3"
    using pos lt len(2) by (intro backup_name_less) simp_all
  from l12 l23 have l13: "backup_name T1 < backup_name T3" by (rule less_trans)
  have "backup_name T3 \<in> fi_Name ` set fis" unfolding s by simp
  then obtain g where "g \<in> set fis" and "fi_Name g = backup_name T3" by auto
  with mx have ge: "backup_name T3 \<le> fi_Name ?l" by auto
  from mem have "fi_Name ?l \<in> fi_Name ` set fis" by (rule imageI)
  then have "fi_Name ?l = backup_name T1 \<or> fi_Name ?l = backup_name T2 \<or> fi_Name ?l = backup_name T3"
    unfolding s by simp
  then show ?thesis
  proof (elim disjE)
    assume "fi_Name ?l = backup_name T1"
    with ge l13 show ?thesis by simp
  next
    assume "fi_Name ?l = backup_name T2"
    with ge l23 show ?thesis by simp
  next
    assume "fi_Name ?l = backup_name T3"
    then show ?thesis .
  qed
qed

text \<open>
  C4 (as amended), with \<open>SortFileInfos\<close> as modelled from the spec (by name).  A path
  that is given is the restore point.  With no path given and a backup directory that
  lists entries, the restore point is the entry whose name is greatest in the lexical
  order, whatever the entry is; when the directory holds exactly the backups written at
  the times \<open>0 \<le> T1 < T2 < T3\<close> and the three decimal timestamps have the same number of
  digits, that is the backup written at \<open>T3\<close>.  With no path given, \<open>Restore\<close> fails with
  "No backup file found and -file not specified" when the user or the directory cannot
  be read or the directory has no entry.  When the restore point is not on disk
  \<open>Restore\<close> fails with "Restore file doesn't exist"; otherwise it returns what the
  import tool returns for the restore point.
\<close>

theorem Restore_resolution:
  assumes srt: "SortFileInfos L = SortFileInfos_spec"
  shows
   "(where' \<noteq> [] \<longrightarrow> Restore_where L w where' = where')
    \<and> (\<forall>home fis. user_Current w = Inr home
          \<and> ReadDir w (filepath_Join L home ''/Library/cert-manage'') = Inr fis \<and> fis \<noteq> [] \<longrightarrow>
          (\<exists>f \<in> set fis. (\<forall>g \<in> set fis. fi_Name g \<le> fi_Name f)
             \<and> Restore_where L w [] =
                 filepath_Join L (filepath_Join L home ''/Library/cert-manage'') (fi_Name f)))
    \<and> (\<forall>home fis T1 T2 T3. user_Current w = Inr home
          \<and> ReadDir w (filepath_Join L home ''/Library/cert-manage'') = Inr fis
          \<and> fi_Name ` set fis = {backup_name T1, backup_name T2, backup_name T3}
          \<and> 0 \<le> T1 \<and> T1 < T2 \<and> T2 < T3
          \<and> length (Sprintf_d T1) = length (Sprintf_d T2)
          \<and> length (Sprintf_d T2) = length (Sprintf_d T3) \<longrightarrow>
          Restore_where L w [] =
            filepath_Join L (filepath_Join L home ''/Library/cert-manage'') (backup_name T3))
    \<and> ((case user_Current w of
           Inl err \<Rightarrow> True
         | Inr home \<Rightarrow>
             (case ReadDir w (filepath_Join L home ''/Library/cert-manage'') of
                Inl err \<Rightarrow> True
              | Inr fis \<Rightarrow> fis = [])) \<longrightarrow>
        Restore L w fs [] = Some (errors_New ''No backup file found and -file not specified''))
    \<and> (Restore_where L w where' \<noteq> [] \<and> \<not> file_Exists fs (Restore_where L w where') \<longrightarrow>
        Restore L w fs where' = Some (errors_New ''Restore file doesn't exist''))
    \<and> (Restore_where L w where' \<noteq> [] \<and> file_Exists fs (Restore_where L w where') \<longrightarrow>
        Restore L w fs where' = security_import w (Restore_where L w where'))"
proof (intro conjI allI impI)
  assume "where' \<noteq> []"
  then show "Restore_where L w where' = where'" by (rule Restore_where_given)
next
  fix home fis
  assume a: "user_Current w = Inr home
      \<and> ReadDir w (filepath_Join L home ''/Library/cert-manage'') = Inr fis \<and> fis \<noteq> []"
  let ?l = "last (SortFileInfos_spec fis)"
  from a have ne: "fis \<noteq> []" by (elim conjE)
  from SortFileInfos_spec_last [OF ne] have mem: "?l \<in> set fis"
    and mx: "\<forall>g \<in> set fis. fi_Name g \<le> fi_Name ?l" by blast+
  from a have "Restore_where L w [] =
      filepath_Join L (filepath_Join L home ''/Library/cert-manage'') (fi_Name ?l)"
    by (elim conjE) (rule Restore_where_latest [OF srt])
  with mem mx show "\<exists>f \<in> set fis. (\<forall>g \<in> set fis. fi_Name g \<le> fi_Name f)
             \<and> Restore_where L w [] =
                 filepath_Join L (filepath_Join L home ''/Library/cert-manage'') (fi_Name f)"
    by (intro bexI [of _ ?l] conjI)
next
  fix home fis T1 T2 T3
  assume a: "user_Current w = Inr home
          \<and> ReadDir w (filepath_Join L home ''/Library/cert-manage'') = Inr fis
          \<and> fi_Name ` set fis = {backup_name T1, backup_name T2, backup_name T3}
          \<and> 0 \<le> T1 \<and> T1 < T2 \<and> T2 < T3
          \<and> length (Sprintf_d T1) = length (Sprintf_d T2)
          \<and> length (Sprintf_d T2) = length (Sprintf_d T3)"
  then have ne: "fis \<noteq> []" by auto
  from a have "fi_Name (last (SortFileInfos_spec fis)) = backup_name T3"
    by (elim conjE) (rule last_name_of_three)
  moreover from a ne have "Restore_where L w [] =
      filepath_Join L (filepath_Join L home ''/Library/cert-manage'') (fi_Name (last (SortFileInfos_spec fis)))"
    by (elim conjE) (rule Restore_where_latest [OF srt])
  ultimately show "Restore_where L w [] =
            filepath_Join L (filepath_Join L home ''/Library/cert-manage'') (backup_name T3)"
    by (simp only:)
next
  assume "case user_Current w of
           Inl err \<Rightarrow> True
         | Inr home \<Rightarrow>
             (case ReadDir w (filepath_Join L home ''/Library/cert-manage'') of
                Inl err \<Rightarrow> True
              | Inr fis \<Rightarrow> fis = [])"
  then have "fst (getLatestBackupFile L w) = []" by (rule getLatestBackupFile_none)
  then show "Restore L w fs [] = Some (errors_New ''No backup file found and -file not specified'')"
    by (rule Restore_no_backup)
next
  assume "Restore_where L w where' \<noteq> [] \<and> \<not> file_Exists fs (Restore_where L w where')"
  then show "Restore L w fs where' = Some (errors_New ''Restore file doesn't exist'')"
    by (elim conjE) (rule Restore_missing)
next
  assume "Restore_where L w where' \<noteq> [] \<and> file_Exists fs (Restore_where L w where')"
  then show "Restore L w fs where' = security_import w (Restore_where L w where')"
    by (elim conjE) (rule Restore_run)
qed


lemma Sprintf_d_small: "Sprintf_d 8 = ''8''" "Sprintf_d 9 = ''9''" "Sprintf_d 10 = ''10''"
  unfolding Sprintf_d_def by ((subst digits.simps, simp)+)+

lemma sort_8_9_10:
  "SortFileInfos_spec [backup_info 10, backup_info 8, backup_info 9] =
     [backup_info 10, backup_info 8, backup_info 9]"
  by (simp add: SortFileInfos_spec_def backup_info_def Sprintf_d_small)

lemma fi_Name_backup_info: "fi_Name (backup_info T) = backup_name T"
  by (simp add: backup_info_def backup_name_def)

text \<open>
  C4, the claim as stated fails.  Of the backups written at the times 8 < 9 < 10 the
  one written at 9 is restored, not the one written at 10: the name ending in 10 comes
  before the one ending in 9.  And with a backup directory that holds no backup but
  another file, \<open>Restore\<close> with no path does not fail: it hands that file to the import
  tool.
\<close>

theorem Restore_resolution_counterexample:
  "Restore_where (sample_lib []) world_8_9_10 [] = ''/Users/ann/Library/cert-manage/trust-backup-9.xml''
   \<and> filepath_Join (sample_lib []) ''/Users/ann/Library/cert-manage'' (backup_name 10) =
       ''/Users/ann/Library/cert-manage/trust-backup-10.xml''
   \<and> Restore (sample_lib []) world_other_file files_other_file [] = None"
proof -
  have a: "Restore_where (sample_lib []) world_8_9_10 [] = ''/Users/ann/Library/cert-manage/trust-backup-9.xml''"
    by (simp add: Restore_where_def getLatestBackupFile_def getCertManageDir_def world_8_9_10_def
        sample_world_def sample_lib_sel join_paths_def sort_8_9_10 fi_Name_backup_info backup_name_def
        Sprintf_d_small)
  have b: "filepath_Join (sample_lib []) ''/Users/ann/Library/cert-manage'' (backup_name 10) =
       ''/Users/ann/Library/cert-manage/trust-backup-10.xml''"
    by (simp add: sample_lib_sel join_paths_def backup_name_def Sprintf_d_small)
  have c: "Restore (sample_lib []) world_other_file files_other_file [] = None"
    by (simp add: Restore_def Restore_where_def getLatestBackupFile_def getCertManageDir_def
        world_other_file_def sample_world_def sample_lib_sel join_paths_def SortFileInfos_spec_def
        file_Exists_def files_other_file_def)
  from a b c show ?thesis by (simp only: simp_thms)
qed

text \<open>
  C4, on the sample run: of the backups written at 1507510001, 1507510002 and
  1507510003 the last is restored, and the two errors arise as stated.
\<close>

theorem Restore_resolution_witness:
  "Restore_where (sample_lib []) sample_world [] = ''/Users/ann/Library/cert-manage/trust-backup-1507510003.xml''
   \<and> Restore (sample_lib []) sample_world sample_files [] = None
   \<and> Restore (sample_lib []) sample_world Map.empty [] = Some (errors_New ''Restore file doesn't exist'')
   \<and> Restore (sample_lib []) (sample_world\<lparr>user_Current := Inl (ExternalError ''user: unknown userid'')\<rparr>) sample_files [] =
        Some (errors_New ''No backup file found and -file not specified'')"
proof -
  let ?L = "sample_lib []"
  let ?dir = "''/Users/ann/Library/cert-manage''"
  let ?latest = "''/Users/ann/Library/cert-manage/trust-backup-1507510003.xml''"
  let ?w' = "sample_world\<lparr>user_Current := Inl (ExternalError ''user: unknown userid'')\<rparr>"
  have c: "SortFileInfos ?L = SortFileInfos_spec"
    by (simp add: sample_lib_sel)
  have u: "user_Current sample_world = Inr ''/Users/ann''" by (simp add: sample_world_def)
  have j: "filepath_Join ?L ''/Users/ann'' ''/Library/cert-manage'' = ?dir"
    by (simp add: sample_lib_sel join_paths_def)
  have r: "ReadDir sample_world ?dir =
      Inr [backup_info 1507510001, backup_info 1507510002, backup_info 1507510003]"
    by (simp add: sample_world_def)
  have n: "filepath_Join ?L ?dir (backup_name 1507510003) = ?latest"
    by (simp add: backup_name_def Sprintf_d_samples sample_lib_sel join_paths_def)
  have pre: "user_Current sample_world = Inr ''/Users/ann''
      \<and> ReadDir sample_world (filepath_Join ?L ''/Users/ann'' ''/Library/cert-manage'') =
          Inr [backup_info 1507510001, backup_info 1507510002, backup_info 1507510003]
      \<and> fi_Name ` set [backup_info 1507510001, backup_info 1507510002, backup_info 1507510003] =
          {backup_name 1507510001, backup_name 1507510002, backup_name 1507510003}
      \<and> (0 :: int) \<le> 1507510001
      \<and> (1507510001 :: int) < 1507510002 \<and> (1507510002 :: int) < 1507510003
      \<and> length (Sprintf_d 1507510001) = length (Sprintf_d 1507510002)
      \<and> length (Sprintf_d 1507510002) = length (Sprintf_d 1507510003)"
    by (simp add: u j r fi_Name_backup_info Sprintf_d_samples)
  note R = Restore_resolution [OF c]
  have "Restore_where ?L sample_world [] =
      filepath_Join ?L (filepath_Join ?L ''/Users/ann'' ''/Library/cert-manage'') (backup_name 1507510003)"
    by (rule R [THEN conjunct2, THEN conjunct2, THEN conjunct1, rule_format, OF pre])
  then have w: "Restore_where ?L sample_world [] = ?latest"
    by (simp only: j n)
  have wne: "Restore_where ?L sample_world [] \<noteq> []"
    by (simp only: w) simp
  have ex: "file_Exists sample_files (Restore_where ?L sample_world [])"
    by (simp only: w) (simp add: file_Exists_def sample_files_def)
  have nex: "\<not> file_Exists Map.empty (Restore_where ?L sample_world [])"
    by (simp add: file_Exists_def)
  have imp: "security_import sample_world ?latest = None" by (simp add: sample_world_def)
  have "Restore ?L sample_world sample_files [] = security_import sample_world (Restore_where ?L sample_world [])"
    using wne ex
    by (rule R [THEN conjunct2, THEN conjunct2, THEN conjunct2, THEN conjunct2, THEN conjunct2, rule_format, OF conjI])
  then have ok: "Restore ?L sample_world sample_files [] = None"
    by (simp only: w imp)
  have missing: "Restore ?L sample_world Map.empty [] = Some (errors_New ''Restore file doesn't exist'')"
    using wne nex
    by (rule R [THEN conjunct2, THEN conjunct2, THEN conjunct2, THEN conjunct2, THEN conjunct1, rule_format, OF conjI])
  have nb: "(case user_Current ?w' of
           Inl err \<Rightarrow> True
         | Inr home \<Rightarrow>
             (case ReadDir ?w' (filepath_Join ?L home ''/Library/cert-manage'') of
                Inl err \<Rightarrow> True
              | Inr fis \<Rightarrow> fis = []))"
    by simp
  have none: "Restore ?L ?w' sample_files [] = Some (errors_New ''No backup file found and -file not specified'')"
    using nb
    by (rule R [THEN conjunct2, THEN conjunct2, THEN conjunct2, THEN conjunct1, rule_format])
  from w ok missing none show ?thesis by (simp only: simp_thms)
qed

end
